theory Spec2Isabelle
  imports Complex_Main
begin

section \<open>JavaScript numbers\<close>

text \<open>
  Quantities and factors are JavaScript numbers, that is IEEE 754 double precision
  values. A finite number is the real number it denotes, next to the two infinities and
  \<^verbatim>\<open>NaN\<close>. The negative zero is identified with zero; the two differ only as a
  divisor, and the divisors of this program are the factors of the master and, in
  \<^verbatim>\<open>convertUnits\<close>, the quantity of an item.
\<close>

datatype jsnum = Fin real | PosInf | NegInf | NaN

text \<open>\<open>pow2 e\<close> is two to the power \<open>e\<close>, for an integer \<open>e\<close>.\<close>

definition pow2 :: "int \<Rightarrow> real" where
  "pow2 e = (if 0 \<le> e then 2 ^ nat e else 1 / 2 ^ nat (- e))"

text \<open>The nearest integer, a tie going to the even one.\<close>

definition round_half_even :: "real \<Rightarrow> int" where
  "round_half_even x =
     (let n = \<lfloor>x\<rfloor>; d = x - of_int n
      in if d < 1 / 2 then n else if 1 / 2 < d then n + 1 else if even n then n else n + 1)"

text \<open>
  The rounding every arithmetic operator ends with: the double nearest to the exact
  result, a tie going to the even significand. With \<open>e\<close> the binary exponent of \<open>x\<close>
  (at least \<open>-1022\<close>, below which the doubles are subnormal), the doubles around \<open>x\<close>
  are the multiples of \<open>pow2 (e - 52)\<close>. A result that rounds to \<open>2 ^ 1024\<close> or beyond
  overflows to an infinity.
\<close>

definition to_double :: "real \<Rightarrow> jsnum" where
  "to_double x =
     (if x = 0 then Fin 0
      else
        let e = max \<lfloor>log 2 \<bar>x\<bar>\<rfloor> (- 1022);
            ulp = pow2 (e - 52);
            y = of_int (round_half_even (x / ulp)) * ulp
        in if 2 ^ 1024 \<le> \<bar>y\<bar> then (if 0 < x then PosInf else NegInf) else Fin y)"

text \<open>The operator \<^verbatim>\<open>*\<close>.\<close>

fun js_mul :: "jsnum \<Rightarrow> jsnum \<Rightarrow> jsnum" where
  "js_mul NaN _ = NaN"
| "js_mul _ NaN = NaN"
| "js_mul (Fin a) (Fin b) = to_double (a * b)"
| "js_mul (Fin a) PosInf = (if a = 0 then NaN else if 0 < a then PosInf else NegInf)"
| "js_mul (Fin a) NegInf = (if a = 0 then NaN else if 0 < a then NegInf else PosInf)"
| "js_mul PosInf (Fin b) = (if b = 0 then NaN else if 0 < b then PosInf else NegInf)"
| "js_mul NegInf (Fin b) = (if b = 0 then NaN else if 0 < b then NegInf else PosInf)"
| "js_mul PosInf PosInf = PosInf"
| "js_mul PosInf NegInf = NegInf"
| "js_mul NegInf PosInf = NegInf"
| "js_mul NegInf NegInf = PosInf"

text \<open>
  The operator \<^verbatim>\<open>/\<close>. Nothing is raised on a zero divisor: \<^verbatim>\<open>0 / 0\<close> is
  \<^verbatim>\<open>NaN\<close> and any other finite number over zero is an infinity.
\<close>

fun js_div :: "jsnum \<Rightarrow> jsnum \<Rightarrow> jsnum" where
  "js_div NaN _ = NaN"
| "js_div _ NaN = NaN"
| "js_div (Fin a) (Fin b) =
     (if b \<noteq> 0 then to_double (a / b)
      else if a = 0 then NaN
      else if 0 < a then PosInf else NegInf)"
| "js_div (Fin a) PosInf = Fin 0"
| "js_div (Fin a) NegInf = Fin 0"
| "js_div PosInf (Fin b) = (if 0 \<le> b then PosInf else NegInf)"
| "js_div NegInf (Fin b) = (if 0 \<le> b then NegInf else PosInf)"
| "js_div PosInf PosInf = NaN"
| "js_div PosInf NegInf = NaN"
| "js_div NegInf PosInf = NaN"
| "js_div NegInf NegInf = NaN"

text \<open>
  \<^verbatim>\<open>Math.round\<close>: the nearest integer, a tie going to the larger one
  (\<^verbatim>\<open>Math.round(2.5)\<close> is 3 and \<^verbatim>\<open>Math.round(-2.5)\<close> is -2). It is exact: the
  integer nearest to a double is a double.
\<close>

fun js_round :: "jsnum \<Rightarrow> jsnum" where
  "js_round (Fin x) = Fin (of_int \<lfloor>x + 1 / 2\<rfloor>)"
| "js_round PosInf = PosInf"
| "js_round NegInf = NegInf"
| "js_round NaN = NaN"

text \<open>Truthiness of a number: \<^verbatim>\<open>0\<close> and \<^verbatim>\<open>NaN\<close> are falsy.\<close>

fun truthy :: "jsnum \<Rightarrow> bool" where
  "truthy (Fin x) = (x \<noteq> 0)"
| "truthy PosInf = True"
| "truthy NegInf = True"
| "truthy NaN = False"

text \<open>The operator \<^verbatim>\<open>!\<close> on a number.\<close>

fun falsy :: "jsnum \<Rightarrow> bool" where
  "falsy (Fin x) = (x = 0)"
| "falsy PosInf = False"
| "falsy NegInf = False"
| "falsy NaN = True"

fun is_finite :: "jsnum \<Rightarrow> bool" where
  "is_finite (Fin x) = True"
| "is_finite _ = False"

section \<open>The conversion master\<close>

text \<open>
  The object read from \<^verbatim>\<open>conversion-master.json\<close> and held in
  \<^verbatim>\<open>this.conversionRules\<close>. An object read from JSON is the map of its own keys
  and inherits from \<^verbatim>\<open>Object.prototype\<close>. The field \<^verbatim>\<open>default\<close> of a rule is
  \<open>default_factor\<close> here. Unit identifiers are upper case words, as the keys of
  \<^verbatim>\<open>conversionRules\<close> have them.
\<close>

record conversion_rule =
  default_factor :: jsnum
  products :: "string \<rightharpoonup> jsnum"

record conversion_master =
  version :: string
  supportedUnits :: "string list"
  unitHierarchy :: "string list"
  conversionRules :: "string \<rightharpoonup> conversion_rule"

text \<open>
  The names a property read finds on \<^verbatim>\<open>Object.prototype\<close> when the object has no
  own key of that name. Each of them holds a function, \<^verbatim>\<open>__proto__\<close> the prototype
  object itself: truthy values, and \<^verbatim>\<open>NaN\<close> as operands of \<^verbatim>\<open>/\<close> and \<^verbatim>\<open>*\<close>.
\<close>

definition object_prototype_keys :: "string list" where
  "object_prototype_keys =
     [''constructor'', ''hasOwnProperty'', ''isPrototypeOf'', ''propertyIsEnumerable'',
      ''toLocaleString'', ''toString'', ''valueOf'', ''__proto__'',
      ''__defineGetter__'', ''__defineSetter__'', ''__lookupGetter__'', ''__lookupSetter__'']"

text \<open>
  \<^verbatim>\<open>Array.prototype.indexOf\<close>: the first position holding the element, \<open>-1\<close> when
  there is none.
\<close>

fun index_from :: "nat \<Rightarrow> 'a list \<Rightarrow> 'a \<Rightarrow> int" where
  "index_from k [] x = - 1"
| "index_from k (y # ys) x = (if y = x then int k else index_from (Suc k) ys x)"

definition indexOf :: "'a list \<Rightarrow> 'a \<Rightarrow> int" where
  "indexOf xs x = index_from 0 xs x"

section \<open>Errors\<close>

text \<open>
  A \<^verbatim>\<open>throw\<close> is the left summand of the result. \<open>Error\<close> is
  \<^verbatim>\<open>new Error(message)\<close>; \<open>TypeError\<close> is what the engine raises by itself.
\<close>

datatype js_error = Error string | TypeError string

fun message :: "js_error \<Rightarrow> string" where
  "message (Error m) = m"
| "message (TypeError m) = m"

section \<open>convertUnit\<close>

text \<open>
  The factor of a rule for a product:
  \<^verbatim>\<open>(sku && rules.products[sku]) ? rules.products[sku] : rules.default\<close>.
  The absent \<^verbatim>\<open>sku\<close> (\<^verbatim>\<open>null\<close>) is \<open>None\<close>; the empty string is falsy, and so
  is a product entry that is \<^verbatim>\<open>0\<close> or \<^verbatim>\<open>NaN\<close>. For a \<^verbatim>\<open>sku\<close> that is no key
  of \<^verbatim>\<open>products\<close> but names an inherited property, \<^verbatim>\<open>rules.products[sku]\<close> is that
  property: it is truthy and becomes the factor, which is \<^verbatim>\<open>NaN\<close> in the division or
  multiplication that follows.
\<close>

definition productFactor :: "conversion_rule \<Rightarrow> string option \<Rightarrow> jsnum" where
  "productFactor rules sku =
     (case sku of
        None \<Rightarrow> default_factor rules
      | Some s \<Rightarrow>
          if s = [] then default_factor rules
          else (case products rules s of
                  None \<Rightarrow> if s \<in> set object_prototype_keys then NaN else default_factor rules
                | Some f \<Rightarrow> if truthy f then f else default_factor rules))"

text \<open>The returned expression \<^verbatim>\<open>Math.round(result * 100) / 100\<close>.\<close>

definition round_result :: "jsnum \<Rightarrow> jsnum" where
  "round_result result = js_div (js_round (js_mul result (Fin 100))) (Fin 100)"

text \<open>
  \<^verbatim>\<open>convertUnit(quantity, fromUnit, toUnit, sku = null)\<close>, over the loaded master. The
  quantity is a number, the units are strings and the \<^verbatim>\<open>sku\<close> is a string or
  \<^verbatim>\<open>null\<close>. The key of a rule holds an upper case T, which no inherited property name
  does, so the rule is found among the own keys of \<^verbatim>\<open>conversionRules\<close> or not at all.
  The calls of \<^verbatim>\<open>this.log\<close> write to the console and the log file and are left out.
\<close>

definition convertUnit ::
  "conversion_master \<Rightarrow> jsnum \<Rightarrow> string \<Rightarrow> string \<Rightarrow> string option \<Rightarrow> js_error + jsnum" where
  "convertUnit cm quantity fromUnit toUnit sku =
     (if fromUnit = toUnit then Inr quantity
      else
        let conversionKey = fromUnit @ ''_TO_'' @ toUnit in
        case conversionRules cm conversionKey of
          None \<Rightarrow>
            Inl (Error (''No conversion rule found for '' @ fromUnit @ '' to '' @ toUnit))
        | Some rules \<Rightarrow>
            let factor = productFactor rules sku;
                hierarchy = unitHierarchy cm;
                fromIndex = indexOf hierarchy fromUnit;
                toIndex = indexOf hierarchy toUnit;
                result = (if fromIndex < toIndex then js_div quantity factor
                          else js_mul quantity factor)
            in Inr (round_result result))"

section \<open>standardizeItem\<close>

text \<open>
  An item of a batch. Each of the three fields the code tests may be absent
  (\<open>None\<close>); when present, \<^verbatim>\<open>sku\<close> and \<^verbatim>\<open>unit\<close> are strings and
  \<^verbatim>\<open>quantity\<close> is a number. \<open>rest\<close> holds the other fields of the object, passed
  through.
\<close>

record 'r item =
  sku :: "string option"
  quantity :: "jsnum option"
  unit :: "string option"
  rest :: 'r

text \<open>What the caller hands over as an item: an object, or \<^verbatim>\<open>null\<close> / \<^verbatim>\<open>undefined\<close>.\<close>

datatype 'r item_arg = NullItem | ItemObj "'r item"

text \<open>
  The two objects \<^verbatim>\<open>standardizeItem\<close> returns: the standardized item
  \<^verbatim>\<open>{...rest, sku, originalQuantity, originalUnit, standardizedUnits, convertedAt}\<close> and
  the error record \<^verbatim>\<open>{...item, error}\<close>.
\<close>

datatype 'r item_result =
    is_standardized: StandardizedItem (passthrough: 'r) (item_sku: string) (originalQuantity: jsnum)
      (originalUnit: string) (standardizedUnits: "string \<rightharpoonup> jsnum") (convertedAt: string)
  | is_error_record: ErrorRecord (original: "'r item") (error: string)

text \<open>
  The loop over \<^verbatim>\<open>this.conversionRules.supportedUnits\<close> that fills
  \<^verbatim>\<open>conversions\<close>; the first throw of \<^verbatim>\<open>convertUnit\<close> leaves it.
\<close>

fun conversions_loop ::
  "conversion_master \<Rightarrow> jsnum \<Rightarrow> string \<Rightarrow> string \<Rightarrow> string list \<Rightarrow>
     (string \<rightharpoonup> jsnum) \<Rightarrow> js_error + (string \<rightharpoonup> jsnum)" where
  "conversions_loop cm q u s [] conversions = Inr conversions"
| "conversions_loop cm q u s (targetUnit # targets) conversions =
     (if u = targetUnit then conversions_loop cm q u s targets (conversions(targetUnit \<mapsto> q))
      else
        case convertUnit cm q u targetUnit (Some s) of
          Inl e \<Rightarrow> Inl e
        | Inr v \<Rightarrow> conversions_loop cm q u s targets (conversions(targetUnit \<mapsto> v)))"

definition missing_fields :: string where
  "missing_fields = ''Missing required fields: sku, quantity, unit''"

text \<open>
  \<^verbatim>\<open>standardizeItem(item)\<close>; \<open>now\<close> is the reading of the clock for
  \<^verbatim>\<open>convertedAt\<close>. The destructuring of the first line stands outside the
  \<^verbatim>\<open>try\<close> and raises a TypeError on \<^verbatim>\<open>null\<close> (the message is the one of V8).
  The \<^verbatim>\<open>catch\<close> turns whatever the loop throws into an error record. The calls of
  \<^verbatim>\<open>this.log\<close> are left out: on an item whose fields are strings and numbers they
  write to the console and the log file and return.
\<close>

definition standardizeItem ::
  "conversion_master \<Rightarrow> string \<Rightarrow> 'r item_arg \<Rightarrow> js_error + 'r item_result" where
  "standardizeItem cm now arg =
     (case arg of
        NullItem \<Rightarrow>
          Inl (TypeError ''Cannot destructure property 'sku' of 'item' as it is null.'')
      | ItemObj item \<Rightarrow>
          (case (sku item, quantity item, unit item) of
             (Some s, Some q, Some u) \<Rightarrow>
               if s = [] \<or> falsy q \<or> u = [] then Inr (ErrorRecord item missing_fields)
               else
                 (case conversions_loop cm q u s (supportedUnits cm) Map.empty of
                    Inl e \<Rightarrow> Inr (ErrorRecord item (message e))
                  | Inr conversions \<Rightarrow>
                      Inr (StandardizedItem (rest item) s q u conversions now))
           | _ \<Rightarrow> Inr (ErrorRecord item missing_fields)))"

section \<open>processInventoryData\<close>

text \<open>
  The payload: \<^verbatim>\<open>null\<close> / \<^verbatim>\<open>undefined\<close>, or an object. Its \<^verbatim>\<open>items\<close> is
  \<open>None\<close> when \<^verbatim>\<open>Array.isArray(data.items)\<close> is false (absent, or not an array);
  \<open>metadata\<close> holds the other fields.
\<close>

datatype ('r, 'm) inventory_data =
  NoData | Data (items: "'r item_arg list option") (metadata: 'm)

record ('r, 'm) processed_data =
  passed_metadata :: 'm
  processed_items :: "'r item_result list"
  processedAt :: string
  conversionVersion :: string

text \<open>
  \<^verbatim>\<open>data.items.map(item => this.standardizeItem(item))\<close>: the items in order, the
  \<open>k\<close>-th one reading the clock as \<open>clock k\<close>; a throw of the callback leaves the map.
\<close>

fun standardizeItems ::
  "conversion_master \<Rightarrow> (nat \<Rightarrow> string) \<Rightarrow> nat \<Rightarrow> 'r item_arg list \<Rightarrow>
     js_error + 'r item_result list" where
  "standardizeItems cm clock k [] = Inr []"
| "standardizeItems cm clock k (x # xs) =
     (case standardizeItem cm (clock k) x of
        Inl e \<Rightarrow> Inl e
      | Inr r \<Rightarrow>
          (case standardizeItems cm clock (Suc k) xs of
             Inl e \<Rightarrow> Inl e
           | Inr rs \<Rightarrow> Inr (r # rs)))"

definition invalid_format :: string where
  "invalid_format = ''Invalid inventory data format. Expected { items: [] }''"

definition processInventoryData ::
  "conversion_master \<Rightarrow> (nat \<Rightarrow> string) \<Rightarrow> ('r, 'm) inventory_data \<Rightarrow>
     js_error + ('r, 'm) processed_data" where
  "processInventoryData cm clock data =
     (case data of
        NoData \<Rightarrow> Inl (Error invalid_format)
      | Data None m \<Rightarrow> Inl (Error invalid_format)
      | Data (Some xs) m \<Rightarrow>
          (case standardizeItems cm clock 0 xs of
             Inl e \<Rightarrow> Inl e
           | Inr processedItems \<Rightarrow>
               Inr \<lparr>passed_metadata = m, processed_items = processedItems,
                    processedAt = clock (length xs), conversionVersion = version cm\<rparr>))"

section \<open>convertUnits\<close>

text \<open>
  An item of the direct conversion payload \<^verbatim>\<open>{sku, quantity, unit}\<close>: the quantity
  a number, the unit a string, the \<^verbatim>\<open>sku\<close> possibly absent.
\<close>

datatype 'r request_item =
  RequestItem (req_sku: "string option") (req_quantity: jsnum) (req_unit: string) (req_rest: 'r)

text \<open>
  The returned object
  \<^verbatim>\<open>{...item, convertedQuantity, convertedUnit, conversionFactor}\<close>.
\<close>

datatype 'r converted_item =
  ConvertedItem (request: "'r request_item") (convertedQuantity: jsnum)
    (convertedUnit: string) (conversionFactor: jsnum)

text \<open>
  \<^verbatim>\<open>items.map(item => ...)\<close> with no \<^verbatim>\<open>try\<close> around \<^verbatim>\<open>convertUnit\<close>: the
  first throw leaves the map and the function.
\<close>

fun convertUnits ::
  "conversion_master \<Rightarrow> 'r request_item list \<Rightarrow> string \<Rightarrow> js_error + 'r converted_item list" where
  "convertUnits cm [] targetUnit = Inr []"
| "convertUnits cm (x # xs) targetUnit =
     (case convertUnit cm (req_quantity x) (req_unit x) targetUnit (req_sku x) of
        Inl e \<Rightarrow> Inl e
      | Inr converted \<Rightarrow>
          (case convertUnits cm xs targetUnit of
             Inl e \<Rightarrow> Inl e
           | Inr rs \<Rightarrow>
               Inr (ConvertedItem x converted targetUnit (js_div converted (req_quantity x)) # rs)))"

section \<open>The rounding policy in the words of the specification\<close>

text \<open>
  Round half away from zero, and the rounding to two decimal places built on it
  ("round-half-away-from-zero on result times 100, then divided by 100"). These two
  follow the specification's wording, not the code; they are compared with
  \<^verbatim>\<open>Math.round\<close> below.
\<close>

definition round_half_away_from_zero :: "real \<Rightarrow> int" where
  "round_half_away_from_zero x = (if 0 \<le> x then \<lfloor>x + 1 / 2\<rfloor> else - \<lfloor>- x + 1 / 2\<rfloor>)"

definition spec_round_result :: "real \<Rightarrow> real" where
  "spec_round_result x = of_int (round_half_away_from_zero (x * 100)) / 100"

section \<open>The master of the specification's scenario\<close>

definition scenario_master :: conversion_master where
  "scenario_master =
     \<lparr>version = ''1.0.0'',
      supportedUnits = [''PIECE'', ''BOX'', ''CARTON''],
      unitHierarchy = [''PIECE'', ''BOX'', ''CARTON''],
      conversionRules =
        [''PIECE_TO_BOX'' \<mapsto>
           \<lparr>default_factor = Fin 12, products = [''SKU001'' \<mapsto> Fin 10]\<rparr>,
         ''BOX_TO_CARTON'' \<mapsto>
           \<lparr>default_factor = Fin 8, products = Map.empty\<rparr>,
         ''PIECE_TO_CARTON'' \<mapsto>
           \<lparr>default_factor = Fin 96, products = [''SKU001'' \<mapsto> Fin 80]\<rparr>]\<rparr>"

text \<open>A master with rules in both directions between two units.\<close>

definition two_way_master :: conversion_master where
  "two_way_master =
     \<lparr>version = ''1.0.0'',
      supportedUnits = [''PIECE'', ''BOX''],
      unitHierarchy = [''PIECE'', ''BOX''],
      conversionRules =
        [''PIECE_TO_BOX'' \<mapsto> \<lparr>default_factor = Fin 12, products = [''SKU001'' \<mapsto> Fin 10]\<rparr>,
         ''BOX_TO_PIECE'' \<mapsto> \<lparr>default_factor = Fin 12, products = [''SKU001'' \<mapsto> Fin 10]\<rparr>]\<rparr>"

section \<open>Auxiliary facts\<close>

lemma pow2_powr: "pow2 e = 2 powr (of_int e)"
proof (cases "0 \<le> e")
  case True
  then have "2 powr (of_int e) = (2::real) powr (real (nat e))" by simp
  also have "\<dots> = 2 ^ nat e" by (simp add: powr_realpow)
  finally show ?thesis using True by (simp add: pow2_def)
next
  case False
  then have "(2::real) powr (of_int e) = 2 powr (- real (nat (- e)))" by simp
  also have "\<dots> = 1 / 2 ^ nat (- e)" by (simp add: powr_minus powr_realpow divide_inverse)
  finally show ?thesis using False by (simp add: pow2_def)
qed

lemma pow2_pos: "0 < pow2 e"
  by (simp add: pow2_powr)

lemma floor_log2_binade:
  assumes "pow2 e \<le> \<bar>x\<bar>" and "\<bar>x\<bar> < pow2 (e + 1)"
  shows "\<lfloor>log 2 \<bar>x\<bar>\<rfloor> = e"
proof -
  have pos: "0 < \<bar>x\<bar>" using assms(1) pow2_pos[of e] by linarith
  have "of_int e \<le> log 2 \<bar>x\<bar>"
    using assms(1) pos by (simp add: pow2_powr le_log_iff)
  moreover have "log 2 \<bar>x\<bar> < of_int e + 1"
    using assms(2) pos by (simp add: pow2_powr log_less_iff)
  ultimately show ?thesis by linarith
qed

lemma round_half_even_bounds: "x - 1 / 2 \<le> of_int (round_half_even x) \<and> of_int (round_half_even x) \<le> x + 1 / 2"
  unfolding round_half_even_def Let_def by (auto; linarith)

lemma round_half_even_int: "x \<in> \<int> \<Longrightarrow> of_int (round_half_even x) = x"
  unfolding round_half_even_def Let_def by (auto elim!: Ints_cases)

lemma pow2_add: "pow2 (a + b) = pow2 a * pow2 b"
  by (simp add: pow2_powr powr_add)

lemma to_double_binade:
  assumes "pow2 e \<le> \<bar>x\<bar>" and "\<bar>x\<bar> < pow2 (e + 1)" and "- 1022 \<le> e" and "e \<le> 1022"
  shows "to_double x = Fin (of_int (round_half_even (x / pow2 (e - 52))) * pow2 (e - 52))"
proof -
  let ?u = "pow2 (e - 52)"
  let ?n = "round_half_even (x / ?u)"
  have x0: "x \<noteq> 0" using assms(1) pow2_pos[of e] by auto
  have fl: "\<lfloor>log 2 \<bar>x\<bar>\<rfloor> = e" using floor_log2_binade[OF assms(1,2)] .
  have u: "0 < ?u" by (rule pow2_pos)
  have "\<bar>x / ?u\<bar> < pow2 (e + 1) / ?u" using assms(2) u by (simp add: divide_strict_right_mono)
  also have "pow2 (e + 1) / ?u = pow2 53"
  proof -
    have "pow2 (e + 1) = pow2 53 * pow2 (e - 52)"
      using pow2_add[of 53 "e - 52"] by (simp add: add.commute)
    then show ?thesis using u by simp
  qed
  finally have lt: "\<bar>x / ?u\<bar> < pow2 53" .
  have "\<bar>of_int ?n\<bar> \<le> \<bar>x / ?u\<bar> + 1 / 2"
    using round_half_even_bounds[of "x / ?u"] by linarith
  then have n: "\<bar>real_of_int ?n\<bar> < pow2 53 + 1 / 2" using lt by linarith
  have "\<bar>real_of_int ?n\<bar> \<le> pow2 53"
  proof -
    have "pow2 53 = real_of_int (2 ^ 53)" by (simp add: pow2_def)
    with n have "real_of_int \<bar>?n\<bar> < real_of_int (2 ^ 53) + 1 / 2" by simp
    then have "\<bar>?n\<bar> \<le> 2 ^ 53" by linarith
    then have "real_of_int \<bar>?n\<bar> \<le> real_of_int (2 ^ 53)" by (rule of_int_le_iff[THEN iffD2])
    then show ?thesis using \<open>pow2 53 = real_of_int (2 ^ 53)\<close> by simp
  qed
  then have "\<bar>of_int ?n * ?u\<bar> \<le> pow2 53 * ?u" using u by (simp add: abs_mult mult_right_mono)
  also have "pow2 53 * ?u = pow2 (e + 1)"
    using pow2_add[of 53 "e - 52"] by (simp add: add.commute)
  also have "\<dots> \<le> pow2 1023"
    unfolding pow2_powr using assms(4) by (intro powr_mono) auto
  also have "\<dots> < 2 ^ 1024" by (simp add: pow2_def)
  finally have "\<not> 2 ^ 1024 \<le> \<bar>of_int ?n * ?u\<bar>" by simp
  then show ?thesis using x0 fl assms(3) by (simp add: to_double_def Let_def max_def)
qed

lemma to_double_exact:
  assumes "pow2 e \<le> \<bar>x\<bar>" and "\<bar>x\<bar> < pow2 (e + 1)" and "- 1022 \<le> e" and "e \<le> 1022"
    and "x / pow2 (e - 52) \<in> \<int>"
  shows "to_double x = Fin x"
  using to_double_binade[OF assms(1-4)] round_half_even_int[OF assms(5)] pow2_pos[of "e - 52"]
  by simp

text \<open>Numbers that are doubles, and the doubles of some that are not.\<close>

lemma to_double_0: "to_double 0 = Fin 0"
  by (simp add: to_double_def)

lemma to_double_2: "to_double 2 = Fin 2"
  by (rule to_double_exact[of 1]) (simp_all add: pow2_def)

lemma to_double_3: "to_double 3 = Fin 3"
  by (rule to_double_exact[of 1]) (simp_all add: pow2_def)

lemma to_double_10: "to_double 10 = Fin 10"
  by (rule to_double_exact[of 3]) (simp_all add: pow2_def)

lemma to_double_1000: "to_double 1000 = Fin 1000"
  by (rule to_double_exact[of 9]) (simp_all add: pow2_def)

lemma to_double_12: "to_double 12 = Fin 12"
  by (rule to_double_exact[of 3]) (simp_all add: pow2_def)

lemma to_double_24: "to_double 24 = Fin 24"
  by (rule to_double_exact[of 4]) (simp_all add: pow2_def)

lemma to_double_25: "to_double 25 = Fin 25"
  by (rule to_double_exact[of 4]) (simp_all add: pow2_def)

lemma to_double_150: "to_double 150 = Fin 150"
  by (rule to_double_exact[of 7]) (simp_all add: pow2_def)

lemma to_double_200: "to_double 200 = Fin 200"
  by (rule to_double_exact[of 7]) (simp_all add: pow2_def)

lemma to_double_300: "to_double 300 = Fin 300"
  by (rule to_double_exact[of 8]) (simp_all add: pow2_def)

lemma to_double_1200: "to_double 1200 = Fin 1200"
  by (rule to_double_exact[of 10]) (simp_all add: pow2_def)

lemma to_double_2400: "to_double 2400 = Fin 2400"
  by (rule to_double_exact[of 11]) (simp_all add: pow2_def)

lemma to_double_quarter: "to_double (1 / 4) = Fin (1 / 4)"
  by (rule to_double_exact[of "- 2"]) (simp_all add: pow2_def)

lemma to_double_3_2: "to_double (3 / 2) = Fin (3 / 2)"
  by (rule to_double_exact[of 0]) (simp_all add: pow2_def)

lemma to_double_minus_eighth: "to_double (- (1 / 8)) = Fin (- (1 / 8))"
  by (rule to_double_exact[of "- 3"]) (simp_all add: pow2_def)

lemma to_double_minus_25_2: "to_double (- (25 / 2)) = Fin (- (25 / 2))"
  by (rule to_double_exact[of 3]) (simp_all add: pow2_def)

lemmas to_double_values =
  to_double_0 to_double_2 to_double_3 to_double_10 to_double_1000 to_double_12 to_double_24 to_double_25 to_double_150
  to_double_200 to_double_300 to_double_1200 to_double_2400 to_double_quarter to_double_3_2
  to_double_minus_eighth to_double_minus_25_2

text \<open>
  The quotient \<^verbatim>\<open>100 / 12\<close> and its product with 100, the quotient \<^verbatim>\<open>46 / 80\<close> and
  its product with 100 (\<^verbatim>\<open>57.49999999999999\<close>, below the exact 57.5), and the numbers
  \<^verbatim>\<open>-0.12\<close> and \<^verbatim>\<open>-0.13\<close>.
\<close>

lemma to_double_25_3: "to_double (25 / 3) = Fin (4691249611844267 / 562949953421312)"
  by (simp add: to_double_binade[of 3] pow2_def round_half_even_def)

lemma to_double_2500_3:
  "to_double (117281240296106675 / 140737488355328) = Fin (7330077518506667 / 8796093022208)"
  by (simp add: to_double_binade[of 9] pow2_def round_half_even_def)

lemma to_double_23_40: "to_double (23 / 40) = Fin (2589569785738035 / 4503599627370496)"
  by (simp add: to_double_binade[of "- 1"] pow2_def round_half_even_def)

lemma to_double_57_5:
  "to_double (64739244643450875 / 1125899906842624) = Fin (8092405580431359 / 140737488355328)"
  by (simp add: to_double_binade[of 5] pow2_def round_half_even_def)

lemma to_double_minus_12_100:
  "to_double (- (3 / 25)) = Fin (- (1080863910568919 / 9007199254740992))"
  by (simp add: to_double_binade[of "- 4"] pow2_def round_half_even_def)

lemma to_double_minus_13_100:
  "to_double (- (13 / 100)) = Fin (- (1170935903116329 / 9007199254740992))"
  by (simp add: to_double_binade[of "- 3"] pow2_def round_half_even_def)

text \<open>Overflow: \<^verbatim>\<open>1e308 * 12\<close> is \<^verbatim>\<open>Infinity\<close>.\<close>

lemma js_mul_overflow: "js_mul (Fin (10 ^ 308)) (Fin 12) = PosInf"
proof -
  have "\<lfloor>log 2 \<bar>10 ^ 308 * 12 :: real\<bar>\<rfloor> = 1026"
    by (rule floor_log2_binade) (simp_all add: pow2_def)
  then show ?thesis
    by (simp add: to_double_def Let_def pow2_def round_half_even_def)
qed

lemma conversionKey_not_inherited: "fromUnit @ ''_TO_'' @ toUnit \<notin> set object_prototype_keys"
proof -
  have "CHR ''T'' \<in> set (fromUnit @ ''_TO_'' @ toUnit)" by simp
  moreover have "\<forall>k\<in>set object_prototype_keys. CHR ''T'' \<notin> set k"
    by (simp add: object_prototype_keys_def)
  ultimately show ?thesis by blast
qed

lemma truthy_falsy: "truthy x = (\<not> falsy x)"
  by (cases x) simp_all

lemma index_from_absent: "x \<notin> set xs \<Longrightarrow> index_from k xs x = - 1"
  by (induction xs arbitrary: k) auto

lemma index_from_first:
  "x \<in> set xs \<Longrightarrow>
     \<exists>i<length xs. index_from k xs x = int (k + i) \<and> xs ! i = x \<and> (\<forall>j<i. xs ! j \<noteq> x)"
proof (induction xs arbitrary: k)
  case Nil
  then show ?case by simp
next
  case (Cons y ys)
  show ?case
  proof (cases "y = x")
    case True
    then show ?thesis by (intro exI[of _ 0]) simp
  next
    case False
    with Cons.prems have "x \<in> set ys" by simp
    from Cons.IH[OF this, of "Suc k"] obtain i where
      i: "i < length ys" "index_from (Suc k) ys x = int (Suc k + i)" "ys ! i = x"
         "\<forall>j<i. ys ! j \<noteq> x" by blast
    have "\<forall>j<Suc i. (y # ys) ! j \<noteq> x"
      using False i(4) by (auto simp: nth_Cons split: nat.splits)
    with False i show ?thesis by (intro exI[of _ "Suc i"]) simp
  qed
qed

lemma indexOf_absent: "x \<notin> set xs \<Longrightarrow> indexOf xs x = - 1"
  by (simp add: indexOf_def index_from_absent)

lemma indexOf_first:
  "x \<in> set xs \<Longrightarrow>
     \<exists>i<length xs. indexOf xs x = int i \<and> xs ! i = x \<and> (\<forall>j<i. xs ! j \<noteq> x)"
  using index_from_first[of x xs 0] by (simp add: indexOf_def)

lemma round_half_away_nonneg: "0 \<le> x \<Longrightarrow> round_half_away_from_zero x = \<lfloor>x + 1 / 2\<rfloor>"
  by (simp add: round_half_away_from_zero_def)

lemma round_half_away_no_tie:
  assumes "x - 1 / 2 \<notin> \<int>"
  shows "round_half_away_from_zero x = \<lfloor>x + 1 / 2\<rfloor>"
proof (cases "0 \<le> x")
  case True
  then show ?thesis by (simp add: round_half_away_from_zero_def)
next
  case False
  have "- \<lfloor>- x + 1 / 2\<rfloor> = \<lceil>x - 1 / 2\<rceil>" by (simp add: ceiling_def)
  also have "\<dots> = \<lfloor>x - 1 / 2\<rfloor> + 1"
  proof -
    have "x - 1 / 2 \<noteq> of_int \<lfloor>x - 1 / 2\<rfloor>" using assms by (metis Ints_of_int)
    then show ?thesis by (simp add: ceiling_altdef)
  qed
  also have "\<dots> = \<lfloor>x + 1 / 2\<rfloor>" by linarith
  finally show ?thesis using False by (simp add: round_half_away_from_zero_def)
qed

lemma convertUnit_rule:
  assumes "fromUnit \<noteq> toUnit"
    and "conversionRules cm (fromUnit @ ''_TO_'' @ toUnit) = Some r"
  shows "convertUnit cm q fromUnit toUnit p =
           Inr (round_result
             (if indexOf (unitHierarchy cm) fromUnit < indexOf (unitHierarchy cm) toUnit
              then js_div q (productFactor r p) else js_mul q (productFactor r p)))"
  using assms by (simp add: convertUnit_def Let_def)

section \<open>Identity conversion\<close>

text \<open>
  C3: for every quantity, every unit and every product (given or not),
  converting from a unit to itself returns the quantity as it is, whatever the master
  holds: no rule is looked up and nothing is rounded.
\<close>

theorem convertUnit_identity: "convertUnit cm q U U productId = Inr q"
  by (simp add: convertUnit_def)

section \<open>Direction of a conversion\<close>

text \<open>
  C1: for a conversion between two different units that both occur in
  \<^verbatim>\<open>unitHierarchy\<close> and have a rule, the quantity is divided by the resolved factor
  when the index of the source unit is strictly less than the index of the target unit,
  and multiplied by it otherwise; the rounding comes after. (By \<open>indexOf_first\<close> the
  index is the first position of the unit in the hierarchy.)
\<close>

theorem convertUnit_direction:
  assumes "fromUnit \<noteq> toUnit"
    and "fromUnit \<in> set (unitHierarchy cm)" and "toUnit \<in> set (unitHierarchy cm)"
    and "conversionRules cm (fromUnit @ ''_TO_'' @ toUnit) = Some r"
  shows "(indexOf (unitHierarchy cm) fromUnit < indexOf (unitHierarchy cm) toUnit \<longrightarrow>
            convertUnit cm q fromUnit toUnit p = Inr (round_result (js_div q (productFactor r p))))
       \<and> (\<not> indexOf (unitHierarchy cm) fromUnit < indexOf (unitHierarchy cm) toUnit \<longrightarrow>
            convertUnit cm q fromUnit toUnit p = Inr (round_result (js_mul q (productFactor r p))))"
  using convertUnit_rule[OF assms(1) assms(4)] by simp

theorem convertUnit_direction_witness:
  "''PIECE'' \<noteq> ''BOX''
   \<and> ''PIECE'' \<in> set (unitHierarchy two_way_master) \<and> ''BOX'' \<in> set (unitHierarchy two_way_master)
   \<and> indexOf (unitHierarchy two_way_master) ''PIECE'' < indexOf (unitHierarchy two_way_master) ''BOX''
   \<and> convertUnit two_way_master (Fin 24) ''PIECE'' ''BOX'' None = Inr (Fin 2)
   \<and> \<not> indexOf (unitHierarchy two_way_master) ''BOX'' < indexOf (unitHierarchy two_way_master) ''PIECE''
   \<and> convertUnit two_way_master (Fin 2) ''BOX'' ''PIECE'' None = Inr (Fin 24)"
proof -
  let ?r = "\<lparr>default_factor = Fin 12, products = [''SKU001'' \<mapsto> Fin 10]\<rparr>"
  have m: "''PIECE'' \<in> set (unitHierarchy two_way_master)" "''BOX'' \<in> set (unitHierarchy two_way_master)"
    by (simp_all add: two_way_master_def)
  have r1: "conversionRules two_way_master (''PIECE'' @ ''_TO_'' @ ''BOX'') = Some ?r"
    and r2: "conversionRules two_way_master (''BOX'' @ ''_TO_'' @ ''PIECE'') = Some ?r"
    by (simp_all add: two_way_master_def)
  have i: "indexOf (unitHierarchy two_way_master) ''PIECE'' = 0"
    "indexOf (unitHierarchy two_way_master) ''BOX'' = 1"
    by (simp_all add: two_way_master_def indexOf_def)
  have d1: "''PIECE'' \<noteq> ''BOX''" and d2: "''BOX'' \<noteq> ''PIECE''" by simp_all
  show ?thesis
    using convertUnit_direction[OF d1 m(1) m(2) r1, of "Fin 24" None]
      convertUnit_direction[OF d2 m(2) m(1) r2, of "Fin 2" None]
    using m by (simp add: i productFactor_def round_result_def to_double_values)
qed

section \<open>Missing rule\<close>

text \<open>
  C5: for every quantity and every two different units with no key
  \<^verbatim>\<open>X_TO_Y\<close> in \<^verbatim>\<open>conversionRules\<close>, the conversion throws the error whose
  message names the two units; the throw is the result of the call, so it reaches the
  caller, and nothing is tried again.
\<close>

theorem convertUnit_no_rule:
  assumes "X \<noteq> Y" and "conversionRules cm (X @ ''_TO_'' @ Y) = None"
  shows "convertUnit cm q X Y p = Inl (Error (''No conversion rule found for '' @ X @ '' to '' @ Y))"
  using assms by (simp add: convertUnit_def)

theorem convertUnit_no_rule_witness:
  "''BOX'' \<noteq> ''PIECE'' \<and> conversionRules scenario_master (''BOX'' @ ''_TO_'' @ ''PIECE'') = None
   \<and> convertUnit scenario_master (Fin 5) ''BOX'' ''PIECE'' (Some ''SKU001'')
       = Inl (Error ''No conversion rule found for BOX to PIECE'')"
proof -
  have d: "''BOX'' \<noteq> ''PIECE''" by simp
  have n: "conversionRules scenario_master (''BOX'' @ ''_TO_'' @ ''PIECE'') = None"
    by (simp add: scenario_master_def)
  show ?thesis using convertUnit_no_rule[OF d n, of "Fin 5" "Some ''SKU001''"] d n by simp
qed

section \<open>Rounding\<close>

lemma js_round_nearest:
  "\<exists>n::int. js_round (Fin y) = Fin (of_int n)
     \<and> y - 1 / 2 < of_int n \<and> of_int n \<le> y + 1 / 2
     \<and> (0 \<le> y \<or> y - 1 / 2 \<notin> \<int> \<longrightarrow> n = round_half_away_from_zero y)"
proof -
  have "y - 1 / 2 < of_int \<lfloor>y + 1 / 2\<rfloor>" by linarith
  moreover have "of_int \<lfloor>y + 1 / 2\<rfloor> \<le> y + 1 / 2" by linarith
  moreover have "0 \<le> y \<or> y - 1 / 2 \<notin> \<int> \<longrightarrow> \<lfloor>y + 1 / 2\<rfloor> = round_half_away_from_zero y"
    using round_half_away_nonneg[of y] round_half_away_no_tie[of y] by auto
  ultimately show ?thesis by (intro exI[of _ "\<lfloor>y + 1 / 2\<rfloor>"]) simp
qed

text \<open>
  C2, as the specification states it, fails: the result is not rounded half away from
  zero. A negative tie goes up: converting -1.5 PIECE to BOX under the default factor 12
  gives -0.125 and the product -12.5, which \<^verbatim>\<open>Math.round\<close> takes to -12, so that the
  code returns -0.12, where rounding half away from zero gives -0.13.
\<close>

theorem convertUnit_rounding_counterexample:
  "js_div (Fin (- 3 / 2)) (Fin 12) = Fin (- 1 / 8)
   \<and> js_mul (Fin (- 1 / 8)) (Fin 100) = Fin (- 25 / 2)
   \<and> js_round (Fin (- 25 / 2)) = Fin (- 12)
   \<and> convertUnit scenario_master (Fin (- 3 / 2)) ''PIECE'' ''BOX'' None = Inr (to_double (- 12 / 100))
   \<and> spec_round_result (- 1 / 8) = - 13 / 100
   \<and> convertUnit scenario_master (Fin (- 3 / 2)) ''PIECE'' ''BOX'' None
         \<noteq> Inr (to_double (spec_round_result (- 1 / 8)))"
  by (simp add: convertUnit_def scenario_master_def productFactor_def indexOf_def
      round_result_def spec_round_result_def round_half_away_from_zero_def
      to_double_values to_double_minus_12_100 to_double_minus_13_100)

text \<open>
  C2, amended: every conversion between different units that has a rule returns
  \<^verbatim>\<open>Math.round(result * 100) / 100\<close>, computed on doubles. When the product
  \<^verbatim>\<open>result * 100\<close> is a finite double \<open>y\<close>, it is rounded to the integer \<open>n\<close> nearest
  to \<open>y\<close>, a tie going to the larger integer, and the value returned is the quotient of
  \<open>n\<close> by 100; \<open>n\<close> is what rounding half away from zero gives whenever \<open>y\<close> is not
  negative or is not a tie. Converting 100 from PIECE to BOX under the default factor 12
  returns 8.33.
\<close>

theorem convertUnit_rounding:
  assumes "fromUnit \<noteq> toUnit"
    and "conversionRules cm (fromUnit @ ''_TO_'' @ toUnit) = Some r"
    and "result =
           (if indexOf (unitHierarchy cm) fromUnit < indexOf (unitHierarchy cm) toUnit
            then js_div q (productFactor r p) else js_mul q (productFactor r p))"
  shows "convertUnit cm q fromUnit toUnit p
           = Inr (js_div (js_round (js_mul result (Fin 100))) (Fin 100))
       \<and> (\<forall>y. js_mul result (Fin 100) = Fin y \<longrightarrow>
             (\<exists>n::int. js_round (Fin y) = Fin (of_int n)
                \<and> y - 1 / 2 < of_int n \<and> of_int n \<le> y + 1 / 2
                \<and> (0 \<le> y \<or> y - 1 / 2 \<notin> \<int> \<longrightarrow> n = round_half_away_from_zero y)
                \<and> convertUnit cm q fromUnit toUnit p = Inr (to_double (of_int n / 100))))
       \<and> convertUnit scenario_master (Fin 100) ''PIECE'' ''BOX'' None = Inr (to_double (833 / 100))"
proof (intro conjI allI impI)
  show eq: "convertUnit cm q fromUnit toUnit p
      = Inr (js_div (js_round (js_mul result (Fin 100))) (Fin 100))"
    using convertUnit_rule[OF assms(1,2)] assms(3) by (simp add: round_result_def)
  fix y assume y: "js_mul result (Fin 100) = Fin y"
  from js_round_nearest[of y] obtain n :: int where
    n: "js_round (Fin y) = Fin (of_int n)" "y - 1 / 2 < of_int n" "of_int n \<le> y + 1 / 2"
      "0 \<le> y \<or> y - 1 / 2 \<notin> \<int> \<longrightarrow> n = round_half_away_from_zero y"
    by blast
  have "convertUnit cm q fromUnit toUnit p = Inr (to_double (of_int n / 100))"
    using eq y n(1) by simp
  with n show "\<exists>n::int. js_round (Fin y) = Fin (of_int n)
      \<and> y - 1 / 2 < of_int n \<and> of_int n \<le> y + 1 / 2
      \<and> (0 \<le> y \<or> y - 1 / 2 \<notin> \<int> \<longrightarrow> n = round_half_away_from_zero y)
      \<and> convertUnit cm q fromUnit toUnit p = Inr (to_double (of_int n / 100))"
    by blast
next
  show "convertUnit scenario_master (Fin 100) ''PIECE'' ''BOX'' None = Inr (to_double (833 / 100))"
    by (simp add: convertUnit_def scenario_master_def productFactor_def indexOf_def
        round_result_def to_double_25_3 to_double_2500_3)
qed

theorem convertUnit_rounding_witness:
  "''PIECE'' \<noteq> ''BOX''
   \<and> conversionRules scenario_master (''PIECE'' @ ''_TO_'' @ ''BOX'')
       = Some \<lparr>default_factor = Fin 12, products = [''SKU001'' \<mapsto> Fin 10]\<rparr>
   \<and> js_div (Fin 100) (Fin 12) = Fin (4691249611844267 / 562949953421312)
   \<and> js_mul (Fin (4691249611844267 / 562949953421312)) (Fin 100)
       = Fin (7330077518506667 / 8796093022208)
   \<and> js_round (Fin (7330077518506667 / 8796093022208)) = Fin 833
   \<and> round_half_away_from_zero (7330077518506667 / 8796093022208) = 833
   \<and> convertUnit scenario_master (Fin 100) ''PIECE'' ''BOX'' None = Inr (to_double (833 / 100))"
proof -
  let ?r = "\<lparr>default_factor = Fin 12, products = [''SKU001'' \<mapsto> Fin 10]\<rparr>"
  let ?x = "4691249611844267 / 562949953421312 :: real"
  let ?y = "7330077518506667 / 8796093022208 :: real"
  have d: "''PIECE'' \<noteq> ''BOX''" by simp
  have r: "conversionRules scenario_master (''PIECE'' @ ''_TO_'' @ ''BOX'') = Some ?r"
    by (simp add: scenario_master_def)
  have x: "js_div (Fin 100) (Fin 12) = Fin ?x" by (simp add: to_double_25_3)
  have u: "Fin ?x =
      (if indexOf (unitHierarchy scenario_master) ''PIECE'' < indexOf (unitHierarchy scenario_master) ''BOX''
       then js_div (Fin 100) (productFactor ?r None) else js_mul (Fin 100) (productFactor ?r None))"
    using x by (simp add: scenario_master_def indexOf_def productFactor_def)
  have y: "js_mul (Fin ?x) (Fin 100) = Fin ?y" by (simp add: to_double_2500_3)
  have n: "js_round (Fin ?y) = Fin 833" by simp
  have h: "round_half_away_from_zero ?y = 833" by (simp add: round_half_away_from_zero_def)
  from convertUnit_rounding[OF d r u] y
  have "convertUnit scenario_master (Fin 100) ''PIECE'' ''BOX'' None = Inr (to_double (833 / 100))"
    by blast
  then show ?thesis using d r x y n h by simp
qed

text \<open>
  The product is the one of doubles, not of reals: 46 PIECE of SKU001 are 0.575 CARTON,
  the product of the double 0.575 with 100 is \<^verbatim>\<open>57.49999999999999\<close>, and the code
  returns 0.57.
\<close>

lemma convertUnit_double_product:
  "convertUnit scenario_master (Fin 46) ''PIECE'' ''CARTON'' (Some ''SKU001'') = Inr (to_double (57 / 100))"
  by (simp add: convertUnit_def scenario_master_def productFactor_def indexOf_def
      round_result_def to_double_23_40 to_double_57_5)

section \<open>Product override\<close>

text \<open>
  C4 says that a \<^verbatim>\<open>sku\<close> absent from \<^verbatim>\<open>products\<close> gets \<^verbatim>\<open>rule.default\<close>, and the
  comment of the code says the same. The code does not do so for a \<^verbatim>\<open>sku\<close> that names
  an inherited property. Over the master of the scenario, whose rule PIECE_TO_BOX has
  the default 12 and an entry for SKU001 only, the absent \<^verbatim>\<open>sku\<close> and the unknown SKU999
  convert 120 PIECE to 10 BOX, and so should \<^verbatim>\<open>constructor\<close>, which is no key of
  \<^verbatim>\<open>products\<close> either: for it the code returns \<^verbatim>\<open>NaN\<close>. The entry of SKU001 is
  used for SKU001.
\<close>

theorem convertUnit_inherited_sku:
  "conversionRules scenario_master ''PIECE_TO_BOX''
     = Some \<lparr>default_factor = Fin 12, products = [''SKU001'' \<mapsto> Fin 10]\<rparr>
   \<and> [''SKU001'' \<mapsto> Fin 10] ''constructor'' = None
   \<and> convertUnit scenario_master (Fin 120) ''PIECE'' ''BOX'' (Some ''constructor'') = Inr NaN
   \<and> convertUnit scenario_master (Fin 120) ''PIECE'' ''BOX'' (Some ''SKU999'') = Inr (Fin 10)
   \<and> convertUnit scenario_master (Fin 120) ''PIECE'' ''BOX'' None = Inr (Fin 10)
   \<and> convertUnit scenario_master (Fin 120) ''PIECE'' ''BOX'' (Some ''SKU001'') = Inr (Fin 12)"
  by (simp add: convertUnit_def scenario_master_def productFactor_def object_prototype_keys_def
      indexOf_def round_result_def to_double_values)

section \<open>The loop of standardizeItem\<close>

lemma convertUnit_same: "convertUnit cm q u u p = Inr q"
  by (simp add: convertUnit_def)

lemma conversions_loop_Inl:
  "conversions_loop cm q u s ts acc = Inl e \<Longrightarrow>
     \<exists>t\<in>set ts. convertUnit cm q u t (Some s) = Inl e"
  by (induction ts arbitrary: acc) (auto split: if_splits sum.splits)

lemma conversions_loop_Inr:
  "conversions_loop cm q u s ts acc = Inr m \<Longrightarrow>
     dom m = dom acc \<union> set ts
     \<and> (\<forall>t\<in>set ts. \<exists>v. m t = Some v \<and> convertUnit cm q u t (Some s) = Inr v)
     \<and> (\<forall>t. t \<notin> set ts \<longrightarrow> m t = acc t)"
proof (induction ts arbitrary: acc)
  case Nil
  then show ?case by simp
next
  case (Cons t ts)
  obtain v where v: "convertUnit cm q u t (Some s) = Inr v"
    and rec: "conversions_loop cm q u s ts (acc(t \<mapsto> v)) = Inr m"
    using Cons.prems by (auto simp: convertUnit_same split: if_splits sum.splits)
  from Cons.IH[OF rec] have
    d: "dom m = dom (acc(t \<mapsto> v)) \<union> set ts"
    and c: "\<forall>t'\<in>set ts. \<exists>w. m t' = Some w \<and> convertUnit cm q u t' (Some s) = Inr w"
    and k: "\<forall>t'. t' \<notin> set ts \<longrightarrow> m t' = (acc(t \<mapsto> v)) t'"
    by blast+
  have "dom m = dom acc \<union> set (t # ts)" using d by auto
  moreover have "\<exists>w. m t = Some w \<and> convertUnit cm q u t (Some s) = Inr w"
  proof (cases "t \<in> set ts")
    case True then show ?thesis using c by blast
  next
    case False then show ?thesis using k v by simp
  qed
  moreover have "\<forall>t'. t' \<notin> set (t # ts) \<longrightarrow> m t' = acc t'" using k by simp
  ultimately show ?case using c by simp
qed

lemma conversions_loop_total:
  "\<forall>t\<in>set ts. \<exists>v. convertUnit cm q u t (Some s) = Inr v \<Longrightarrow>
     \<exists>m. conversions_loop cm q u s ts acc = Inr m"
  by (induction ts arbitrary: acc) (auto split: sum.splits)

lemma standardizeItem_valid:
  assumes "sku item = Some s" "s \<noteq> []" "quantity item = Some q" "truthy q"
    "unit item = Some u" "u \<noteq> []"
  shows "standardizeItem cm now (ItemObj item) =
    (case conversions_loop cm q u s (supportedUnits cm) Map.empty of
       Inl e \<Rightarrow> Inr (ErrorRecord item (message e))
     | Inr conversions \<Rightarrow> Inr (StandardizedItem (rest item) s q u conversions now))"
  using assms by (simp add: standardizeItem_def truthy_falsy)

lemma standardizeItem_missing:
  assumes "sku item = None \<or> sku item = Some [] \<or> quantity item = None
      \<or> (\<exists>q. quantity item = Some q \<and> falsy q) \<or> unit item = None \<or> unit item = Some []"
  shows "standardizeItem cm now (ItemObj item) = Inr (ErrorRecord item missing_fields)"
  using assms by (auto simp: standardizeItem_def split: option.splits)

section \<open>standardizeItem: all units or an error record\<close>

text \<open>
  C6: for an item that passes the test of its fields (truthy \<^verbatim>\<open>sku\<close>,
  \<^verbatim>\<open>quantity\<close> and \<^verbatim>\<open>unit\<close>): if \<^verbatim>\<open>convertUnit\<close> throws for some unit of
  \<^verbatim>\<open>supportedUnits\<close>, the result is the error record made of the item as it came and
  the message thrown, and it holds no conversions at all; if \<^verbatim>\<open>convertUnit\<close> throws
  for none, the result is the standardized item, whose \<^verbatim>\<open>standardizedUnits\<close> has
  exactly the supported units as keys, each with the value \<^verbatim>\<open>convertUnit\<close> returns
  for it, the item's own unit (when it is a supported one) with the item's quantity.
\<close>

theorem standardizeItem_all_or_nothing:
  assumes "sku item = Some s" and "s \<noteq> []" and "quantity item = Some q" and "truthy q"
    and "unit item = Some u" and "u \<noteq> []"
  shows "((\<exists>t\<in>set (supportedUnits cm). \<exists>e. convertUnit cm q u t (Some s) = Inl e) \<longrightarrow>
            (\<exists>t\<in>set (supportedUnits cm). \<exists>e. convertUnit cm q u t (Some s) = Inl e
               \<and> standardizeItem cm now (ItemObj item) = Inr (ErrorRecord item (message e))))
       \<and> ((\<forall>t\<in>set (supportedUnits cm). \<exists>v. convertUnit cm q u t (Some s) = Inr v) \<longrightarrow>
            (\<exists>m. standardizeItem cm now (ItemObj item)
                    = Inr (StandardizedItem (rest item) s q u m now)
               \<and> dom m = set (supportedUnits cm)
               \<and> (\<forall>t\<in>set (supportedUnits cm).
                     \<exists>v. m t = Some v \<and> convertUnit cm q u t (Some s) = Inr v)
               \<and> (u \<in> set (supportedUnits cm) \<longrightarrow> m u = Some q)))"
proof (intro conjI impI)
  note eq = standardizeItem_valid[OF assms, of cm now]
  assume fails: "\<exists>t\<in>set (supportedUnits cm). \<exists>e. convertUnit cm q u t (Some s) = Inl e"
  show "\<exists>t\<in>set (supportedUnits cm). \<exists>e. convertUnit cm q u t (Some s) = Inl e
      \<and> standardizeItem cm now (ItemObj item) = Inr (ErrorRecord item (message e))"
  proof (cases "conversions_loop cm q u s (supportedUnits cm) Map.empty")
    case (Inl e)
    from conversions_loop_Inl[OF Inl] obtain t where
      "t \<in> set (supportedUnits cm)" "convertUnit cm q u t (Some s) = Inl e" by blast
    then show ?thesis using eq Inl by auto
  next
    case (Inr m)
    from conversions_loop_Inr[OF Inr] fails show ?thesis by fastforce
  qed
next
  note eq = standardizeItem_valid[OF assms, of cm now]
  assume ok: "\<forall>t\<in>set (supportedUnits cm). \<exists>v. convertUnit cm q u t (Some s) = Inr v"
  from conversions_loop_total[OF ok] obtain m where
    m: "conversions_loop cm q u s (supportedUnits cm) Map.empty = Inr m" by blast
  note props = conversions_loop_Inr[OF m]
  have "standardizeItem cm now (ItemObj item) = Inr (StandardizedItem (rest item) s q u m now)"
    using eq m by simp
  moreover have "dom m = set (supportedUnits cm)" using props by simp
  moreover have "\<forall>t\<in>set (supportedUnits cm).
      \<exists>v. m t = Some v \<and> convertUnit cm q u t (Some s) = Inr v"
    using props by blast
  moreover have "u \<in> set (supportedUnits cm) \<longrightarrow> m u = Some q"
    using props convertUnit_same[of cm q u "Some s"] by fastforce
  ultimately show "\<exists>m. standardizeItem cm now (ItemObj item)
        = Inr (StandardizedItem (rest item) s q u m now)
      \<and> dom m = set (supportedUnits cm)
      \<and> (\<forall>t\<in>set (supportedUnits cm). \<exists>v. m t = Some v \<and> convertUnit cm q u t (Some s) = Inr v)
      \<and> (u \<in> set (supportedUnits cm) \<longrightarrow> m u = Some q)"
    by blast
qed

text \<open>
  The two cases at work: a BOX item over the scenario's master has no rule towards
  PIECE and becomes an error record; a PIECE item over the two-way master is converted
  to both units.
\<close>

theorem standardizeItem_all_or_nothing_witness:
  "standardizeItem scenario_master ''2024-01-15T10:30:00.000Z''
      (ItemObj \<lparr>sku = Some ''SKU002'', quantity = Some (Fin 2), unit = Some ''BOX'', rest = ''Widget''\<rparr>)
     = Inr (ErrorRecord
         \<lparr>sku = Some ''SKU002'', quantity = Some (Fin 2), unit = Some ''BOX'', rest = ''Widget''\<rparr>
         ''No conversion rule found for BOX to PIECE'')
   \<and> (\<exists>m. standardizeItem two_way_master ''2024-01-15T10:30:00.000Z''
          (ItemObj \<lparr>sku = Some ''SKU001'', quantity = Some (Fin 120), unit = Some ''PIECE'', rest = ''Widget''\<rparr>)
         = Inr (StandardizedItem ''Widget'' ''SKU001'' (Fin 120) ''PIECE'' m ''2024-01-15T10:30:00.000Z'')
        \<and> dom m = {''PIECE'', ''BOX''} \<and> m ''PIECE'' = Some (Fin 120) \<and> m ''BOX'' = Some (Fin 12))"
proof -
  let ?now = "''2024-01-15T10:30:00.000Z''"
  let ?bad = "\<lparr>sku = Some ''SKU002'', quantity = Some (Fin 2), unit = Some ''BOX'', rest = ''Widget''\<rparr>"
  let ?good = "\<lparr>sku = Some ''SKU001'', quantity = Some (Fin 120), unit = Some ''PIECE'', rest = ''Widget''\<rparr>"
  have c1: "convertUnit scenario_master (Fin 2) ''BOX'' ''PIECE'' (Some ''SKU002'')
      = Inl (Error ''No conversion rule found for BOX to PIECE'')"
    by (simp add: convertUnit_def scenario_master_def)
  have c2: "convertUnit scenario_master (Fin 2) ''BOX'' ''BOX'' (Some ''SKU002'') = Inr (Fin 2)"
    by (simp add: convertUnit_def)
  have c3: "convertUnit scenario_master (Fin 2) ''BOX'' ''CARTON'' (Some ''SKU002'') = Inr (Fin (1 / 4))"
    by (simp add: convertUnit_def scenario_master_def productFactor_def object_prototype_keys_def
        indexOf_def round_result_def to_double_values)
  have su: "supportedUnits scenario_master = [''PIECE'', ''BOX'', ''CARTON'']"
    by (simp add: scenario_master_def)
  have A: "standardizeItem scenario_master ?now (ItemObj ?bad)
      = Inr (ErrorRecord ?bad ''No conversion rule found for BOX to PIECE'')"
    using standardizeItem_all_or_nothing[of ?bad "''SKU002''" "Fin 2" "''BOX''" scenario_master ?now]
    by (auto simp: su c1 c2 c3)
  have d1: "convertUnit two_way_master (Fin 120) ''PIECE'' ''PIECE'' (Some ''SKU001'') = Inr (Fin 120)"
    by (simp add: convertUnit_def)
  have d2: "convertUnit two_way_master (Fin 120) ''PIECE'' ''BOX'' (Some ''SKU001'') = Inr (Fin 12)"
    by (simp add: convertUnit_def two_way_master_def productFactor_def object_prototype_keys_def
        indexOf_def round_result_def to_double_values)
  have su2: "supportedUnits two_way_master = [''PIECE'', ''BOX'']"
    by (simp add: two_way_master_def)
  have B: "\<exists>m. standardizeItem two_way_master ?now (ItemObj ?good)
         = Inr (StandardizedItem ''Widget'' ''SKU001'' (Fin 120) ''PIECE'' m ?now)
        \<and> dom m = {''PIECE'', ''BOX''} \<and> m ''PIECE'' = Some (Fin 120) \<and> m ''BOX'' = Some (Fin 12)"
    using standardizeItem_all_or_nothing[of ?good "''SKU001''" "Fin 120" "''PIECE''" two_way_master ?now]
    by (auto simp: su2 d1 d2)
  show ?thesis using A B by blast
qed

section \<open>standardizeItem on null\<close>

text \<open>
  C7 says that \<^verbatim>\<open>standardizeItem\<close> never throws and hands every failure back as an
  error record. The code does throw on the item \<^verbatim>\<open>null\<close>, which a JSON array of items
  may hold: the destructuring of its first line stands before the \<^verbatim>\<open>try\<close> and raises
  a TypeError.
\<close>

theorem standardizeItem_null_throws:
  "standardizeItem scenario_master ''2024-01-15T10:30:00.000Z'' (NullItem :: unit item_arg)
     = Inl (TypeError ''Cannot destructure property 'sku' of 'item' as it is null.'')"
  by (simp add: standardizeItem_def)

section \<open>The scenario of the specification\<close>

text \<open>
  C10: over the master of the scenario (units PIECE, BOX, CARTON in this order;
  PIECE_TO_BOX with default 12 and 10 for SKU001, BOX_TO_CARTON with default 8,
  PIECE_TO_CARTON with default 96 and 80 for SKU001), standardizing the item
  SKU001, 120, PIECE succeeds, and its \<^verbatim>\<open>standardizedUnits\<close> is PIECE 120, BOX 12,
  CARTON 1.5.
\<close>

theorem standardizeItem_scenario:
  "standardizeItem scenario_master now
      (ItemObj \<lparr>sku = Some ''SKU001'', quantity = Some (Fin 120), unit = Some ''PIECE'', rest = other\<rparr>)
     = Inr (StandardizedItem other ''SKU001'' (Fin 120) ''PIECE''
         [''PIECE'' \<mapsto> Fin 120, ''BOX'' \<mapsto> Fin 12, ''CARTON'' \<mapsto> Fin (3 / 2)] now)"
  by (simp add: standardizeItem_def convertUnit_def scenario_master_def productFactor_def
      object_prototype_keys_def indexOf_def round_result_def to_double_values)

section \<open>Isolation of the items of a batch\<close>

lemma standardizeItems_all:
  "\<forall>i<length xs. \<exists>r. standardizeItem cm (clock (n + i)) (xs ! i) = Inr r \<Longrightarrow>
     \<exists>rs. standardizeItems cm clock n xs = Inr rs \<and> length rs = length xs
       \<and> (\<forall>i<length xs. standardizeItem cm (clock (n + i)) (xs ! i) = Inr (rs ! i))"
proof (induction xs arbitrary: n)
  case Nil
  then show ?case by simp
next
  case (Cons x xs)
  from Cons.prems obtain r where r: "standardizeItem cm (clock n) x = Inr r"
    by fastforce
  have "\<forall>i<length xs. \<exists>r. standardizeItem cm (clock (Suc n + i)) (xs ! i) = Inr r"
  proof (intro allI impI)
    fix i assume "i < length xs"
    then have "Suc i < length (x # xs)" by simp
    with Cons.prems have "\<exists>r. standardizeItem cm (clock (n + Suc i)) ((x # xs) ! Suc i) = Inr r"
      by blast
    then show "\<exists>r. standardizeItem cm (clock (Suc n + i)) (xs ! i) = Inr r" by simp
  qed
  from Cons.IH[OF this] obtain rs where
    rs: "standardizeItems cm clock (Suc n) xs = Inr rs" "length rs = length xs"
      "\<forall>i<length xs. standardizeItem cm (clock (Suc n + i)) (xs ! i) = Inr (rs ! i)"
    by blast
  have "\<forall>i<length (x # xs). standardizeItem cm (clock (n + i)) ((x # xs) ! i) = Inr ((r # rs) ! i)"
    using r rs(3) by (auto simp: nth_Cons split: nat.splits)
  then show ?case using r rs by simp
qed

lemma filter_single:
  assumes "k < length rs" and "\<forall>i<length rs. P (rs ! i) = (i = k)"
  shows "length (filter P rs) = 1"
proof -
  have split: "rs = take k rs @ rs ! k # drop (Suc k) rs"
    using assms(1) by (simp add: id_take_nth_drop)
  have "\<forall>x\<in>set (take k rs). \<not> P x"
  proof
    fix x assume "x \<in> set (take k rs)"
    then obtain i where "i < length (take k rs)" "take k rs ! i = x"
      by (auto simp: in_set_conv_nth)
    then show "\<not> P x" using assms by auto
  qed
  then have a: "filter P (take k rs) = []" by simp
  have "\<forall>x\<in>set (drop (Suc k) rs). \<not> P x"
  proof
    fix x assume "x \<in> set (drop (Suc k) rs)"
    then obtain i where "i < length (drop (Suc k) rs)" "drop (Suc k) rs ! i = x"
      by (auto simp: in_set_conv_nth)
    then show "\<not> P x" using assms by auto
  qed
  then have b: "filter P (drop (Suc k) rs) = []" by simp
  have c: "P (rs ! k)" using assms by simp
  have "filter P rs = filter P (take k rs @ rs ! k # drop (Suc k) rs)"
    using split by simp
  then show ?thesis using a b c by simp
qed

text \<open>
  C8: for a batch whose \<^verbatim>\<open>items\<close> is an array of N items of which one has no
  \<^verbatim>\<open>sku\<close> and every other one standardizes successfully, \<^verbatim>\<open>processInventoryData\<close>
  returns N results in the order of the input, each the result of
  \<^verbatim>\<open>standardizeItem\<close> on its own item: one error record, at the place of the item
  without \<^verbatim>\<open>sku\<close>, and N - 1 standardized items. A payload that is absent, or whose
  \<^verbatim>\<open>items\<close> is absent or not an array, is rejected with the error "Invalid inventory
  data format".
\<close>

theorem processInventoryData_isolation:
  fixes xs :: "'r item_arg list" and m :: 'm
  assumes "k < length xs" and "xs ! k = ItemObj bad" and "sku bad = None"
    and "\<forall>i<length xs. i \<noteq> k \<longrightarrow>
           (\<exists>r. standardizeItem cm (clock i) (xs ! i) = Inr r \<and> is_standardized r)"
  shows "(\<exists>res. processInventoryData cm clock (Data (Some xs) m) = Inr res
            \<and> length (processed_items res) = length xs
            \<and> (\<forall>i<length xs. standardizeItem cm (clock i) (xs ! i) = Inr (processed_items res ! i))
            \<and> processed_items res ! k = ErrorRecord bad missing_fields
            \<and> (\<forall>i<length xs. i \<noteq> k \<longrightarrow> is_standardized (processed_items res ! i))
            \<and> length (filter is_error_record (processed_items res)) = 1
            \<and> length (filter is_standardized (processed_items res)) = length xs - 1)
       \<and> processInventoryData cm clock (Data None m) = Inl (Error invalid_format)
       \<and> processInventoryData cm clock (NoData :: ('r, 'm) inventory_data) = Inl (Error invalid_format)
       \<and> take 29 invalid_format = ''Invalid inventory data format''"
proof (intro conjI)
  have bad: "standardizeItem cm (clock k) (xs ! k) = Inr (ErrorRecord bad missing_fields)"
    using assms(2,3) standardizeItem_missing[of bad cm "clock k"] by simp
  have "\<forall>i<length xs. \<exists>r. standardizeItem cm (clock (0 + i)) (xs ! i) = Inr r"
    using bad assms(4) by (metis add_0)
  from standardizeItems_all[OF this] obtain rs where
    rs: "standardizeItems cm clock 0 xs = Inr rs" "length rs = length xs"
      "\<forall>i<length xs. standardizeItem cm (clock i) (xs ! i) = Inr (rs ! i)"
    by auto
  let ?res = "\<lparr>passed_metadata = m, processed_items = rs,
      processedAt = clock (length xs), conversionVersion = version cm\<rparr>"
  have res: "processInventoryData cm clock (Data (Some xs) m) = Inr ?res"
    using rs(1) by (simp add: processInventoryData_def)
  have atk: "rs ! k = ErrorRecord bad missing_fields"
    using rs(3) assms(1) bad by fastforce
  have others: "\<forall>i<length xs. i \<noteq> k \<longrightarrow> is_standardized (rs ! i)"
    using rs(3) assms(4) by fastforce
  have e: "\<forall>i<length rs. is_error_record (rs ! i) = (i = k)"
  proof (intro allI impI)
    fix i assume "i < length rs"
    then show "is_error_record (rs ! i) = (i = k)"
      using atk others rs(2) by (cases "i = k") auto
  qed
  have one: "length (filter is_error_record rs) = 1"
    using filter_single[of k rs is_error_record] e assms(1) rs(2) by simp
  have "length (filter is_standardized rs) + length (filter is_error_record rs) = length rs"
  proof -
    have ff: "filter is_error_record rs = filter (\<lambda>r. \<not> is_standardized r) rs"
    proof (rule filter_cong[OF refl])
      fix r :: "'r item_result"
      show "is_error_record r = (\<not> is_standardized r)" by (cases r) simp_all
    qed
    show ?thesis unfolding ff by (rule sum_length_filter_compl)
  qed
  then have rest: "length (filter is_standardized rs) = length xs - 1"
    using one rs(2) by simp
  show "\<exists>res. processInventoryData cm clock (Data (Some xs) m) = Inr res
      \<and> length (processed_items res) = length xs
      \<and> (\<forall>i<length xs. standardizeItem cm (clock i) (xs ! i) = Inr (processed_items res ! i))
      \<and> processed_items res ! k = ErrorRecord bad missing_fields
      \<and> (\<forall>i<length xs. i \<noteq> k \<longrightarrow> is_standardized (processed_items res ! i))
      \<and> length (filter is_error_record (processed_items res)) = 1
      \<and> length (filter is_standardized (processed_items res)) = length xs - 1"
    using res rs(2,3) atk others one rest by (intro exI[of _ ?res]) simp
next
  show "processInventoryData cm clock (Data None m) = Inl (Error invalid_format)"
    by (simp add: processInventoryData_def)
next
  show "processInventoryData cm clock (NoData :: ('r, 'm) inventory_data) = Inl (Error invalid_format)"
    by (simp add: processInventoryData_def)
next
  show "take 29 invalid_format = ''Invalid inventory data format''"
    by (simp add: invalid_format_def)
qed


text \<open>A batch of three items, the second one without \<^verbatim>\<open>sku\<close>.\<close>

theorem processInventoryData_isolation_witness:
  "\<exists>res. processInventoryData scenario_master (\<lambda>i. ''2024-01-15T10:30:00.000Z'')
       (Data (Some
          [ItemObj \<lparr>sku = Some ''SKU001'', quantity = Some (Fin 120), unit = Some ''PIECE'', rest = ()\<rparr>,
           ItemObj \<lparr>sku = None, quantity = Some (Fin 5), unit = Some ''PIECE'', rest = ()\<rparr>,
           ItemObj \<lparr>sku = Some ''SKU002'', quantity = Some (Fin 24), unit = Some ''PIECE'', rest = ()\<rparr>])
          ''test-outlet'') = Inr res
     \<and> length (processed_items res) = 3
     \<and> is_standardized (processed_items res ! 0)
     \<and> processed_items res ! 1
         = ErrorRecord \<lparr>sku = None, quantity = Some (Fin 5), unit = Some ''PIECE'', rest = ()\<rparr>
             ''Missing required fields: sku, quantity, unit''
     \<and> is_standardized (processed_items res ! 2)
     \<and> length (filter is_error_record (processed_items res)) = 1
     \<and> length (filter is_standardized (processed_items res)) = 2"
proof -
  let ?clock = "\<lambda>i::nat. ''2024-01-15T10:30:00.000Z''"
  let ?a = "\<lparr>sku = Some ''SKU001'', quantity = Some (Fin 120), unit = Some ''PIECE'', rest = ()\<rparr>"
  let ?b = "\<lparr>sku = None, quantity = Some (Fin 5), unit = Some ''PIECE'', rest = ()\<rparr>"
  let ?c = "\<lparr>sku = Some ''SKU002'', quantity = Some (Fin 24), unit = Some ''PIECE'', rest = ()\<rparr>"
  let ?xs = "[ItemObj ?a, ItemObj ?b, ItemObj ?c]"
  have a: "\<exists>r. standardizeItem scenario_master (?clock 0) (ItemObj ?a) = Inr r \<and> is_standardized r"
    by (simp add: standardizeItem_def convertUnit_def scenario_master_def productFactor_def
        object_prototype_keys_def indexOf_def round_result_def to_double_values)
  have c: "\<exists>r. standardizeItem scenario_master (?clock 2) (ItemObj ?c) = Inr r \<and> is_standardized r"
    by (simp add: standardizeItem_def convertUnit_def scenario_master_def productFactor_def
        object_prototype_keys_def indexOf_def round_result_def to_double_values)
  have others: "\<forall>i<length ?xs. i \<noteq> 1 \<longrightarrow>
      (\<exists>r. standardizeItem scenario_master (?clock i) (?xs ! i) = Inr r \<and> is_standardized r)"
  proof (intro allI impI)
    fix i assume "i < length ?xs" "i \<noteq> 1"
    then have "i = 0 \<or> i = 2" by auto
    then show "\<exists>r. standardizeItem scenario_master (?clock i) (?xs ! i) = Inr r \<and> is_standardized r"
      using a c by auto
  qed
  have k: "1 < length ?xs" by simp
  have b: "?xs ! 1 = ItemObj ?b" by simp
  have s: "sku ?b = None" by simp
  from processInventoryData_isolation[OF k b s others, of "''test-outlet''"]
  show ?thesis by (auto simp: missing_fields_def)
qed

section \<open>No isolation in convertUnits\<close>

lemma js_div_zero_not_finite: "\<not> is_finite (js_div c (Fin 0))"
  by (cases c) simp_all

lemma convertUnits_Inl:
  "\<exists>x\<in>set xs. \<exists>e. convertUnit cm (req_quantity x) (req_unit x) t (req_sku x) = Inl e \<Longrightarrow>
     \<exists>x\<in>set xs. \<exists>e. convertUnit cm (req_quantity x) (req_unit x) t (req_sku x) = Inl e
        \<and> convertUnits cm xs t = Inl e"
proof (induction xs)
  case Nil
  then show ?case by simp
next
  case (Cons x xs)
  show ?case
  proof (cases "convertUnit cm (req_quantity x) (req_unit x) t (req_sku x)")
    case (Inl e)
    then show ?thesis by auto
  next
    case (Inr c)
    with Cons.prems have
      "\<exists>y\<in>set xs. \<exists>e. convertUnit cm (req_quantity y) (req_unit y) t (req_sku y) = Inl e"
      by auto
    from Cons.IH[OF this] obtain y e where
      "y \<in> set xs" "convertUnit cm (req_quantity y) (req_unit y) t (req_sku y) = Inl e"
      "convertUnits cm xs t = Inl e" by blast
    then show ?thesis using Inr by auto
  qed
qed

lemma convertUnits_Inr:
  "\<forall>x\<in>set xs. \<exists>c. convertUnit cm (req_quantity x) (req_unit x) t (req_sku x) = Inr c \<Longrightarrow>
     \<exists>rs. convertUnits cm xs t = Inr rs \<and> length rs = length xs
       \<and> (\<forall>i<length xs. \<exists>c.
             convertUnit cm (req_quantity (xs ! i)) (req_unit (xs ! i)) t (req_sku (xs ! i)) = Inr c
             \<and> rs ! i = ConvertedItem (xs ! i) c t (js_div c (req_quantity (xs ! i))))"
proof (induction xs)
  case Nil
  then show ?case by simp
next
  case (Cons x xs)
  from Cons.prems obtain c where
    c: "convertUnit cm (req_quantity x) (req_unit x) t (req_sku x) = Inr c" by auto
  from Cons.prems Cons.IH obtain rs where
    rs: "convertUnits cm xs t = Inr rs" "length rs = length xs"
      "\<forall>i<length xs. \<exists>c.
          convertUnit cm (req_quantity (xs ! i)) (req_unit (xs ! i)) t (req_sku (xs ! i)) = Inr c
          \<and> rs ! i = ConvertedItem (xs ! i) c t (js_div c (req_quantity (xs ! i)))"
    by auto
  let ?r = "ConvertedItem x c t (js_div c (req_quantity x))"
  have "\<forall>i<length (x # xs). \<exists>c'.
      convertUnit cm (req_quantity ((x # xs) ! i)) (req_unit ((x # xs) ! i)) t
        (req_sku ((x # xs) ! i)) = Inr c'
      \<and> (?r # rs) ! i = ConvertedItem ((x # xs) ! i) c' t (js_div c' (req_quantity ((x # xs) ! i)))"
    using c rs(3) by (auto simp: nth_Cons split: nat.splits)
  then show ?case using c rs(1,2) by simp
qed

text \<open>
  C9: \<^verbatim>\<open>convertUnits\<close> does not isolate a failing item. If \<^verbatim>\<open>convertUnit\<close> throws
  for some item, the whole call throws the error of such an item and returns no list at
  all. If it throws for none, the call returns one object per item, in order: the item
  with \<^verbatim>\<open>convertedQuantity\<close>, the \<^verbatim>\<open>convertedUnit\<close> asked for, and
  \<^verbatim>\<open>conversionFactor\<close>, which is the converted quantity divided by the item's
  quantity with no guard, so that an item of quantity zero has a factor that is not
  finite.
\<close>

theorem convertUnits_no_isolation:
  "((\<exists>x\<in>set xs. \<exists>e. convertUnit cm (req_quantity x) (req_unit x) t (req_sku x) = Inl e) \<longrightarrow>
      (\<exists>x\<in>set xs. \<exists>e. convertUnit cm (req_quantity x) (req_unit x) t (req_sku x) = Inl e
         \<and> convertUnits cm xs t = Inl e))
   \<and> ((\<forall>x\<in>set xs. \<exists>c. convertUnit cm (req_quantity x) (req_unit x) t (req_sku x) = Inr c) \<longrightarrow>
      (\<exists>rs. convertUnits cm xs t = Inr rs \<and> length rs = length xs
         \<and> (\<forall>i<length xs. \<exists>c.
               convertUnit cm (req_quantity (xs ! i)) (req_unit (xs ! i)) t (req_sku (xs ! i)) = Inr c
               \<and> request (rs ! i) = xs ! i
               \<and> convertedQuantity (rs ! i) = c
               \<and> convertedUnit (rs ! i) = t
               \<and> conversionFactor (rs ! i) = js_div (convertedQuantity (rs ! i)) (req_quantity (xs ! i))
               \<and> (req_quantity (xs ! i) = Fin 0 \<longrightarrow> \<not> is_finite (conversionFactor (rs ! i))))))"
proof (intro conjI impI)
  assume "\<exists>x\<in>set xs. \<exists>e. convertUnit cm (req_quantity x) (req_unit x) t (req_sku x) = Inl e"
  then show "\<exists>x\<in>set xs. \<exists>e. convertUnit cm (req_quantity x) (req_unit x) t (req_sku x) = Inl e
      \<and> convertUnits cm xs t = Inl e"
    by (rule convertUnits_Inl)
next
  assume "\<forall>x\<in>set xs. \<exists>c. convertUnit cm (req_quantity x) (req_unit x) t (req_sku x) = Inr c"
  from convertUnits_Inr[OF this] obtain rs where
    rs: "convertUnits cm xs t = Inr rs" "length rs = length xs"
      "\<forall>i<length xs. \<exists>c.
          convertUnit cm (req_quantity (xs ! i)) (req_unit (xs ! i)) t (req_sku (xs ! i)) = Inr c
          \<and> rs ! i = ConvertedItem (xs ! i) c t (js_div c (req_quantity (xs ! i)))"
    by blast
  have "\<forall>i<length xs. \<exists>c.
      convertUnit cm (req_quantity (xs ! i)) (req_unit (xs ! i)) t (req_sku (xs ! i)) = Inr c
      \<and> request (rs ! i) = xs ! i
      \<and> convertedQuantity (rs ! i) = c
      \<and> convertedUnit (rs ! i) = t
      \<and> conversionFactor (rs ! i) = js_div (convertedQuantity (rs ! i)) (req_quantity (xs ! i))
      \<and> (req_quantity (xs ! i) = Fin 0 \<longrightarrow> \<not> is_finite (conversionFactor (rs ! i)))"
  proof (intro allI impI)
    fix i assume "i < length xs"
    with rs(3) obtain c where
      c: "convertUnit cm (req_quantity (xs ! i)) (req_unit (xs ! i)) t (req_sku (xs ! i)) = Inr c"
        "rs ! i = ConvertedItem (xs ! i) c t (js_div c (req_quantity (xs ! i)))"
      by blast
    have "req_quantity (xs ! i) = Fin 0 \<longrightarrow> \<not> is_finite (conversionFactor (rs ! i))"
      using c(2) js_div_zero_not_finite[of c] by simp
    then show "\<exists>c.
        convertUnit cm (req_quantity (xs ! i)) (req_unit (xs ! i)) t (req_sku (xs ! i)) = Inr c
        \<and> request (rs ! i) = xs ! i
        \<and> convertedQuantity (rs ! i) = c
        \<and> convertedUnit (rs ! i) = t
        \<and> conversionFactor (rs ! i) = js_div (convertedQuantity (rs ! i)) (req_quantity (xs ! i))
        \<and> (req_quantity (xs ! i) = Fin 0 \<longrightarrow> \<not> is_finite (conversionFactor (rs ! i)))"
      using c by simp
  qed
  then show "\<exists>rs. convertUnits cm xs t = Inr rs \<and> length rs = length xs
      \<and> (\<forall>i<length xs. \<exists>c.
            convertUnit cm (req_quantity (xs ! i)) (req_unit (xs ! i)) t (req_sku (xs ! i)) = Inr c
            \<and> request (rs ! i) = xs ! i
            \<and> convertedQuantity (rs ! i) = c
            \<and> convertedUnit (rs ! i) = t
            \<and> conversionFactor (rs ! i) = js_div (convertedQuantity (rs ! i)) (req_quantity (xs ! i))
            \<and> (req_quantity (xs ! i) = Fin 0 \<longrightarrow> \<not> is_finite (conversionFactor (rs ! i))))"
    using rs(1,2) by blast
qed

text \<open>
  An item of the unknown unit BOGUS after a convertible one, towards PIECE: the call
  throws and the first item's conversion is lost. An item of quantity zero after a
  convertible one, towards BOX: its factor is \<^verbatim>\<open>NaN\<close>.
\<close>

theorem convertUnits_no_isolation_witness:
  "convertUnits scenario_master
      [RequestItem (Some ''SKU001'') (Fin 30) ''PIECE'' (),
       RequestItem (Some ''X'') (Fin 1) ''BOGUS'' ()] ''PIECE''
     = Inl (Error ''No conversion rule found for BOGUS to PIECE'')
   \<and> (\<exists>rs. convertUnits scenario_master
          [RequestItem (Some ''SKU001'') (Fin 30) ''PIECE'' (),
           RequestItem (Some ''SKU001'') (Fin 0) ''PIECE'' ()] ''BOX'' = Inr rs
        \<and> length rs = 2
        \<and> convertedQuantity (rs ! 0) = Fin 3 \<and> conversionFactor (rs ! 0) = to_double (1 / 10)
        \<and> convertedQuantity (rs ! 1) = Fin 0 \<and> conversionFactor (rs ! 1) = NaN
        \<and> \<not> is_finite (conversionFactor (rs ! 1)))"
proof -
  let ?a = "RequestItem (Some ''SKU001'') (Fin 30) ''PIECE'' ()"
  let ?b = "RequestItem (Some ''X'') (Fin 1) ''BOGUS'' ()"
  let ?z = "RequestItem (Some ''SKU001'') (Fin 0) ''PIECE'' ()"
  have a: "convertUnit scenario_master (Fin 30) ''PIECE'' ''PIECE'' (Some ''SKU001'') = Inr (Fin 30)"
    by (simp add: convertUnit_def)
  have b: "convertUnit scenario_master (Fin 1) ''BOGUS'' ''PIECE'' (Some ''X'')
      = Inl (Error ''No conversion rule found for BOGUS to PIECE'')"
    by (simp add: convertUnit_def scenario_master_def)
  have A: "convertUnits scenario_master [?a, ?b] ''PIECE''
      = Inl (Error ''No conversion rule found for BOGUS to PIECE'')"
    using convertUnits_no_isolation[of "[?a, ?b]" scenario_master "''PIECE''"] a b by auto
  have c: "convertUnit scenario_master (Fin 30) ''PIECE'' ''BOX'' (Some ''SKU001'') = Inr (Fin 3)"
    by (simp add: convertUnit_def scenario_master_def productFactor_def object_prototype_keys_def
        indexOf_def round_result_def to_double_values)
  have z: "convertUnit scenario_master (Fin 0) ''PIECE'' ''BOX'' (Some ''SKU001'') = Inr (Fin 0)"
    by (simp add: convertUnit_def scenario_master_def productFactor_def object_prototype_keys_def
        indexOf_def round_result_def to_double_values)
  have all: "\<forall>x\<in>set [?a, ?z]. \<exists>c.
      convertUnit scenario_master (req_quantity x) (req_unit x) ''BOX'' (req_sku x) = Inr c"
    using c z by simp
  from convertUnits_no_isolation[of "[?a, ?z]" scenario_master "''BOX''"] all
  obtain rs where rs: "convertUnits scenario_master [?a, ?z] ''BOX'' = Inr rs"
    and len: "length rs = length [?a, ?z]"
    and el: "\<forall>i<length [?a, ?z]. \<exists>c.
        convertUnit scenario_master (req_quantity ([?a, ?z] ! i)) (req_unit ([?a, ?z] ! i)) ''BOX''
          (req_sku ([?a, ?z] ! i)) = Inr c
        \<and> request (rs ! i) = [?a, ?z] ! i
        \<and> convertedQuantity (rs ! i) = c
        \<and> convertedUnit (rs ! i) = ''BOX''
        \<and> conversionFactor (rs ! i) = js_div (convertedQuantity (rs ! i)) (req_quantity ([?a, ?z] ! i))
        \<and> (req_quantity ([?a, ?z] ! i) = Fin 0 \<longrightarrow> \<not> is_finite (conversionFactor (rs ! i)))"
    by blast
  have e0: "convertedQuantity (rs ! 0) = Fin 3 \<and> conversionFactor (rs ! 0) = to_double (1 / 10)"
    using el[rule_format, of 0] c by auto
  have e1: "convertedQuantity (rs ! 1) = Fin 0 \<and> conversionFactor (rs ! 1) = NaN
      \<and> \<not> is_finite (conversionFactor (rs ! 1))"
    using el[rule_format, of 1] z by auto
  show ?thesis using A rs len e0 e1 by simp
qed

end
